theory Spec2Isabelle
  imports Main
begin

section \<open>Data model\<close>

text \<open>
  The session subsystem of the appointment client: the authentication context
  (\<^verbatim>\<open>AuthContext\<close>, with its provider and the hook \<^verbatim>\<open>useAuth\<close>) and the navigator
  (\<^verbatim>\<open>AppNavigator\<close>) that registers screens according to the signed-in user.

  A thrown JavaScript value is an \<open>error\<close>; an \<^verbatim>\<open>async\<close> function becomes a function from
  the state before the call to its result (\<open>Inl\<close> a rejection, \<open>Inr\<close> a fulfilment)
  paired with the state after it.
\<close>

datatype error = Error string

text \<open>
  \<^verbatim>\<open>User\<close> is declared in \<^verbatim>\<open>types/auth\<close>; the fields below are the ones the sources read
  (\<^verbatim>\<open>user.id\<close>, \<^verbatim>\<open>user.name\<close>, \<^verbatim>\<open>user.role\<close>, \<^verbatim>\<open>user.image\<close>). The role is compared with
  string literals at run time and a user read back from storage is not validated, so it
  is a string.
\<close>

record User =
  id_user :: string
  name :: string
  role :: string
  image_user :: string

text \<open>The value \<^verbatim>\<open>authService.signIn\<close> and \<^verbatim>\<open>authService.register\<close> resolve to.\<close>

record AuthResponse =
  response_user :: User
  response_token :: string

text \<open>
  The state the provider works on: its two React state variables, the contents of
  \<^verbatim>\<open>AsyncStorage\<close>, and what has been written with \<^verbatim>\<open>console.error\<close>.
\<close>

record session =
  user :: "User option"
  loading :: bool
  AsyncStorage :: "string \<rightharpoonup> string"
  console :: "(string \<times> error) list"

text \<open>
  The collaborators whose code is outside the provider: the authentication service
  (\<^verbatim>\<open>services/auth\<close>), given by the outcome of each of its calls; the serialiser
  \<^verbatim>\<open>JSON.stringify\<close> on users; and the storage, whose writes and removals may reject
  (\<open>setItem_fault k = Some e\<close>: a write under key \<open>k\<close> rejects with \<open>e\<close>).
  The type variables stand for \<^verbatim>\<open>LoginCredentials\<close> and \<^verbatim>\<open>RegisterData\<close>.
  The service's calls return or throw; they are taken not to touch the provider's state
  or the two storage entries themselves.
\<close>

record ('c, 'd) environment =
  authService_signIn :: "'c \<Rightarrow> error + AuthResponse"
  authService_register :: "'d \<Rightarrow> error + AuthResponse"
  authService_signOut :: "error + unit"
  authService_getStoredUser :: "error + User option"
  authService_loadRegisteredUsers :: "error + unit"
  JSON_stringify :: "User \<Rightarrow> string"
  setItem_fault :: "string \<Rightarrow> error option"
  removeItem_fault :: "string \<Rightarrow> error option"

type_synonym 'a outcome = "(error + 'a) \<times> session"

definition STORAGE_KEYS_USER :: string where
  "STORAGE_KEYS_USER = ''@MedicalApp:user''"

definition STORAGE_KEYS_TOKEN :: string where
  "STORAGE_KEYS_TOKEN = ''@MedicalApp:token''"

section \<open>Control flow of asynchronous functions\<close>

text \<open>\<open>await_then r f\<close>: when the awaited step rejected, the rest is skipped.\<close>

definition await_then :: "'a outcome \<Rightarrow> ('a \<Rightarrow> session \<Rightarrow> 'b outcome) \<Rightarrow> 'b outcome" where
  "await_then r f = (case r of (Inl e, s) \<Rightarrow> (Inl e, s) | (Inr x, s) \<Rightarrow> f x s)"

text \<open>
  \<^verbatim>\<open>try { body } catch (error) { handler }\<close>: the handler runs in the state the body
  had reached when it threw.
\<close>

definition try_catch :: "'a outcome \<Rightarrow> (error \<Rightarrow> session \<Rightarrow> 'a outcome) \<Rightarrow> 'a outcome" where
  "try_catch r handler = (case r of (Inl e, s) \<Rightarrow> handler e s | (Inr x, s) \<Rightarrow> (Inr x, s))"

text \<open>\<^verbatim>\<open>try { body } finally { fin }\<close>: \<open>fin\<close> runs on both exits.\<close>

definition try_finally :: "'a outcome \<Rightarrow> (session \<Rightarrow> unit outcome) \<Rightarrow> 'a outcome" where
  "try_finally r fin =
     (case r of (res, s) \<Rightarrow>
        (case fin s of (Inl e, s') \<Rightarrow> (Inl e, s') | (Inr _, s') \<Rightarrow> (res, s')))"

text \<open>A call of the service: its outcome, the state as it was.\<close>

definition service_call :: "error + 'a \<Rightarrow> session \<Rightarrow> 'a outcome" where
  "service_call r s = (r, s)"

definition setUser :: "User option \<Rightarrow> session \<Rightarrow> unit outcome" where
  "setUser u s = (Inr (), s\<lparr>user := u\<rparr>)"

definition setLoading :: "bool \<Rightarrow> session \<Rightarrow> unit outcome" where
  "setLoading b s = (Inr (), s\<lparr>loading := b\<rparr>)"

definition console_error :: "string \<Rightarrow> error \<Rightarrow> session \<Rightarrow> unit outcome" where
  "console_error msg e s = (Inr (), s\<lparr>console := console s @ [(msg, e)]\<rparr>)"

definition AsyncStorage_setItem ::
  "('c, 'd) environment \<Rightarrow> string \<Rightarrow> string \<Rightarrow> session \<Rightarrow> unit outcome" where
  "AsyncStorage_setItem env k v s =
     (case setItem_fault env k of
        Some e \<Rightarrow> (Inl e, s)
      | None \<Rightarrow> (Inr (), s\<lparr>AsyncStorage := (AsyncStorage s)(k \<mapsto> v)\<rparr>))"

definition AsyncStorage_removeItem ::
  "('c, 'd) environment \<Rightarrow> string \<Rightarrow> session \<Rightarrow> unit outcome" where
  "AsyncStorage_removeItem env k s =
     (case removeItem_fault env k of
        Some e \<Rightarrow> (Inl e, s)
      | None \<Rightarrow> (Inr (), s\<lparr>AsyncStorage := (AsyncStorage s)(k := None)\<rparr>))"

section \<open>The provider's operations\<close>

text \<open>The messages are the source's, with the accents of the Portuguese dropped.\<close>

definition loadStoredUser :: "('c, 'd) environment \<Rightarrow> session \<Rightarrow> unit outcome" where
  "loadStoredUser env s =
     try_finally
       (try_catch
          (await_then (service_call (authService_getStoredUser env) s)
             (\<lambda>storedUser s1.
                (case storedUser of
                   Some u \<Rightarrow> setUser (Some u) s1
                 | None \<Rightarrow> (Inr (), s1))))
          (\<lambda>e. console_error ''Erro ao carregar usuario:'' e))
       (setLoading False)"

definition loadRegisteredUsers :: "('c, 'd) environment \<Rightarrow> session \<Rightarrow> unit outcome" where
  "loadRegisteredUsers env s =
     try_catch
       (service_call (authService_loadRegisteredUsers env) s)
       (\<lambda>e. console_error ''Erro ao carregar usuarios registrados:'' e)"

definition signIn :: "('c, 'd) environment \<Rightarrow> 'c \<Rightarrow> session \<Rightarrow> unit outcome" where
  "signIn env credentials s =
     try_catch
       (await_then (service_call (authService_signIn env credentials) s)
          (\<lambda>response s1.
             await_then (setUser (Some (response_user response)) s1)
               (\<lambda>_ s2.
                  await_then
                    (AsyncStorage_setItem env STORAGE_KEYS_USER
                       (JSON_stringify env (response_user response)) s2)
                    (\<lambda>_ s3.
                       AsyncStorage_setItem env STORAGE_KEYS_TOKEN
                         (response_token response) s3))))
       (\<lambda>e s'. (Inl e, s'))"

definition register :: "('c, 'd) environment \<Rightarrow> 'd \<Rightarrow> session \<Rightarrow> unit outcome" where
  "register env data s =
     try_catch
       (await_then (service_call (authService_register env data) s)
          (\<lambda>response s1.
             await_then (setUser (Some (response_user response)) s1)
               (\<lambda>_ s2.
                  await_then
                    (AsyncStorage_setItem env STORAGE_KEYS_USER
                       (JSON_stringify env (response_user response)) s2)
                    (\<lambda>_ s3.
                       AsyncStorage_setItem env STORAGE_KEYS_TOKEN
                         (response_token response) s3))))
       (\<lambda>e s'. (Inl e, s'))"

definition signOut :: "('c, 'd) environment \<Rightarrow> session \<Rightarrow> unit outcome" where
  "signOut env s =
     try_catch
       (await_then (service_call (authService_signOut env) s)
          (\<lambda>_ s1.
             await_then (setUser None s1)
               (\<lambda>_ s2.
                  await_then (AsyncStorage_removeItem env STORAGE_KEYS_USER s2)
                    (\<lambda>_ s3. AsyncStorage_removeItem env STORAGE_KEYS_TOKEN s3))))
       (\<lambda>e. console_error ''Erro ao fazer logout:'' e)"

definition updateUser :: "('c, 'd) environment \<Rightarrow> User \<Rightarrow> session \<Rightarrow> unit outcome" where
  "updateUser env updatedUser s =
     try_catch
       (await_then (setUser (Some updatedUser) s)
          (\<lambda>_ s1.
             AsyncStorage_setItem env STORAGE_KEYS_USER
               (JSON_stringify env updatedUser) s1))
       (\<lambda>e s'.
          await_then (console_error ''Erro ao atualizar usuario:'' e s')
            (\<lambda>_ s''. (Inl e, s'')))"

section \<open>Sequences of operations\<close>

text \<open>
  The operations a screen (or the mount effect, for \<open>loadStoredUser\<close>) can start.
  In a sequence every operation comes with the environment it meets, since the service
  and the storage may answer differently from one call to the next.
\<close>

datatype ('c, 'd) operation =
    Op_loadStoredUser
  | Op_signIn 'c
  | Op_register 'd
  | Op_signOut
  | Op_updateUser User

fun perform :: "('c, 'd) environment \<times> ('c, 'd) operation \<Rightarrow> session \<Rightarrow> unit outcome" where
  "perform (env, Op_loadStoredUser) s = loadStoredUser env s"
| "perform (env, Op_signIn c) s = signIn env c s"
| "perform (env, Op_register d) s = register env d s"
| "perform (env, Op_signOut) s = signOut env s"
| "perform (env, Op_updateUser u) s = updateUser env u s"

text \<open>The states seen before the first operation and after each completed one.\<close>

fun trace :: "(('c, 'd) environment \<times> ('c, 'd) operation) list \<Rightarrow> session \<Rightarrow> session list" where
  "trace [] s = [s]"
| "trace (x # xs) s = s # trace xs (snd (perform x s))"

definition paired :: "session \<Rightarrow> bool" where
  "paired s =
     ((AsyncStorage s STORAGE_KEYS_USER \<noteq> None) = (AsyncStorage s STORAGE_KEYS_TOKEN \<noteq> None))"

definition session_backed :: "session \<Rightarrow> bool" where
  "session_backed s = (user s = None \<or> AsyncStorage s STORAGE_KEYS_USER \<noteq> None)"

definition storage_reliable :: "('c, 'd) environment \<Rightarrow> bool" where
  "storage_reliable env =
     (setItem_fault env STORAGE_KEYS_USER = None \<and> setItem_fault env STORAGE_KEYS_TOKEN = None \<and>
      removeItem_fault env STORAGE_KEYS_USER = None \<and> removeItem_fault env STORAGE_KEYS_TOKEN = None)"

text \<open>
  The conditions under which the pairing of the two entries survives an operation: the
  storage performs what it is asked; \<open>updateUser\<close> is called while a user is signed in;
  the service hands back a stored user only when the user entry is in the storage.
\<close>

fun step_allowed :: "('c, 'd) environment \<times> ('c, 'd) operation \<Rightarrow> session \<Rightarrow> bool" where
  "step_allowed (env, Op_updateUser u) s = (storage_reliable env \<and> user s \<noteq> None)"
| "step_allowed (env, Op_loadStoredUser) s =
     (storage_reliable env \<and>
      (case authService_getStoredUser env of
         Inr (Some u) \<Rightarrow> AsyncStorage s STORAGE_KEYS_USER \<noteq> None
       | _ \<Rightarrow> True))"
| "step_allowed (env, _) s = storage_reliable env"

fun admissible :: "(('c, 'd) environment \<times> ('c, 'd) operation) list \<Rightarrow> session \<Rightarrow> bool" where
  "admissible [] s = True"
| "admissible (x # xs) s = (step_allowed x s \<and> admissible xs (snd (perform x s)))"

section \<open>The navigator\<close>

datatype screen =
    Login | Register
  | AdminDashboard | DoctorDashboard | PatientDashboard
  | Home | CreateAppointment | Profile | EditProfile | Notifications | Settings

text \<open>What the component returns: \<^verbatim>\<open>null\<close>, or the container with the screens it registers, in order.\<close>

datatype element = Null | NavigationContainer "screen list"

text \<open>
  \<open>AppNavigator user loading\<close>, on the two values it takes from \<^verbatim>\<open>useAuth()\<close>.
\<close>

definition AppNavigator :: "User option \<Rightarrow> bool \<Rightarrow> element" where
  "AppNavigator usr is_loading =
     (if is_loading then Null
      else NavigationContainer
        (case usr of
           None \<Rightarrow> [Login, Register]
         | Some u \<Rightarrow>
             (if role u = ''admin'' then [AdminDashboard] else []) @
             (if role u = ''doctor'' then [DoctorDashboard] else []) @
             (if role u = ''patient'' then [PatientDashboard] else []) @
             [Home, CreateAppointment, Profile, EditProfile, Notifications, Settings]))"

text \<open>The destinations that can be navigated to: the screens registered.\<close>

fun reachable :: "element \<Rightarrow> screen set" where
  "reachable Null = {}"
| "reachable (NavigationContainer xs) = set xs"

text \<open>
  The stack navigator is given no \<^verbatim>\<open>initialRouteName\<close>, so it opens on the first screen
  registered.
\<close>

fun initialRoute :: "element \<Rightarrow> screen option" where
  "initialRoute Null = None"
| "initialRoute (NavigationContainer []) = None"
| "initialRoute (NavigationContainer (x # xs)) = Some x"

text \<open>The screens the source registers for every signed-in user.\<close>

definition CommonSet :: "screen set" where
  "CommonSet = {Home, CreateAppointment, Profile, EditProfile, Notifications, Settings}"

section \<open>The context and its hook\<close>

text \<open>
  The objects a context value can be: the default \<^verbatim>\<open>{}\<close> the context is created with, or
  the object the provider passes (its functions left out). A JavaScript value is falsy
  when it is \<^verbatim>\<open>undefined\<close> or \<^verbatim>\<open>null\<close>; every object is truthy.
\<close>

datatype context_object = Empty_Object | Provider_Value "User option" bool

datatype js_value = JS_undefined | JS_null | JS_object context_object

fun truthy :: "js_value \<Rightarrow> bool" where
  "truthy JS_undefined = False"
| "truthy JS_null = False"
| "truthy (JS_object _) = True"

definition AuthContext_default :: js_value where
  "AuthContext_default = JS_object Empty_Object"

definition AuthProvider_value :: "session \<Rightarrow> js_value" where
  "AuthProvider_value s = JS_object (Provider_Value (user s) (loading s))"

text \<open>
  \<^verbatim>\<open>useContext(AuthContext)\<close>: the value of the enclosing provider (\<open>Some s\<close>: the provider
  whose state is \<open>s\<close>), or the default when there is none. The context is private to its
  module, so \<^verbatim>\<open>AuthProvider\<close> is its only provider.
\<close>

definition useContext_AuthContext :: "session option \<Rightarrow> js_value" where
  "useContext_AuthContext provider =
     (case provider of None \<Rightarrow> AuthContext_default | Some s \<Rightarrow> AuthProvider_value s)"

definition useAuth :: "session option \<Rightarrow> error + js_value" where
  "useAuth provider =
     (let context = useContext_AuthContext provider
      in if \<not> truthy context
         then Inl (Error ''useAuth must be used within an AuthProvider'')
         else Inr context)"

section \<open>Fixtures\<close>

definition patient_u1 :: User where
  "patient_u1 = \<lparr>id_user = ''u1'', name = ''Ana'', role = ''patient'', image_user = ''''\<rparr>"

definition admin_u2 :: User where
  "admin_u2 = \<lparr>id_user = ''u2'', name = ''Rui'', role = ''admin'', image_user = ''''\<rparr>"

definition doctor_u2 :: User where
  "doctor_u2 = \<lparr>id_user = ''u2'', name = ''Rui'', role = ''doctor'', image_user = ''''\<rparr>"

definition nurse_u3 :: User where
  "nurse_u3 = \<lparr>id_user = ''u3'', name = ''Lia'', role = ''nurse'', image_user = ''''\<rparr>"

definition stringify_fields :: "User \<Rightarrow> string" where
  "stringify_fields u =
     id_user u @ '','' @ name u @ '','' @ role u @ '','' @ image_user u"

definition no_fault :: "string \<Rightarrow> error option" where
  "no_fault k = None"

definition token_write_fault :: "string \<Rightarrow> error option" where
  "token_write_fault k =
     (if k = STORAGE_KEYS_TOKEN then Some (Error ''storage full'') else None)"

definition gateway_rejects :: "string \<times> string \<Rightarrow> error + AuthResponse" where
  "gateway_rejects c = Inl (Error ''invalid credentials'')"

definition gateway_accepts_u1 :: "string \<times> string \<Rightarrow> error + AuthResponse" where
  "gateway_accepts_u1 c = Inr \<lparr>response_user = patient_u1, response_token = ''t1''\<rparr>"

definition env_rejecting :: "(string \<times> string, string \<times> string) environment" where
  "env_rejecting =
     \<lparr>authService_signIn = gateway_rejects,
      authService_register = gateway_rejects,
      authService_signOut = Inl (Error ''network down''),
      authService_getStoredUser = Inl (Error ''storage unavailable''),
      authService_loadRegisteredUsers = Inr (),
      JSON_stringify = stringify_fields,
      setItem_fault = no_fault,
      removeItem_fault = no_fault\<rparr>"

definition env_accepting :: "(string \<times> string, string \<times> string) environment" where
  "env_accepting =
     \<lparr>authService_signIn = gateway_accepts_u1,
      authService_register = gateway_accepts_u1,
      authService_signOut = Inr (),
      authService_getStoredUser = Inr (Some patient_u1),
      authService_loadRegisteredUsers = Inr (),
      JSON_stringify = stringify_fields,
      setItem_fault = no_fault,
      removeItem_fault = no_fault\<rparr>"

definition env_empty_store :: "(string \<times> string, string \<times> string) environment" where
  "env_empty_store =
     \<lparr>authService_signIn = gateway_accepts_u1,
      authService_register = gateway_accepts_u1,
      authService_signOut = Inr (),
      authService_getStoredUser = Inr None,
      authService_loadRegisteredUsers = Inr (),
      JSON_stringify = stringify_fields,
      setItem_fault = no_fault,
      removeItem_fault = no_fault\<rparr>"

definition env_token_fault :: "(string \<times> string, string \<times> string) environment" where
  "env_token_fault =
     \<lparr>authService_signIn = gateway_accepts_u1,
      authService_register = gateway_accepts_u1,
      authService_signOut = Inr (),
      authService_getStoredUser = Inr None,
      authService_loadRegisteredUsers = Inr (),
      JSON_stringify = stringify_fields,
      setItem_fault = token_write_fault,
      removeItem_fault = no_fault\<rparr>"

text \<open>The provider's state when it mounts, over a given content of the storage.\<close>

definition initial_session :: "(string \<rightharpoonup> string) \<Rightarrow> session" where
  "initial_session store = \<lparr>user = None, loading = True, AsyncStorage = store, console = []\<rparr>"

text \<open>The state at mount on a device whose storage holds nothing.\<close>

definition fresh_session :: session where
  "fresh_session = initial_session Map.empty"

definition session_u1 :: session where
  "session_u1 =
     \<lparr>user = Some patient_u1, loading = False,
      AsyncStorage = [STORAGE_KEYS_USER \<mapsto> stringify_fields patient_u1,
                      STORAGE_KEYS_TOKEN \<mapsto> ''t1''],
      console = []\<rparr>"

definition session_u2 :: session where
  "session_u2 =
     \<lparr>user = Some admin_u2, loading = False,
      AsyncStorage = [STORAGE_KEYS_USER \<mapsto> stringify_fields admin_u2,
                      STORAGE_KEYS_TOKEN \<mapsto> ''t2''],
      console = []\<rparr>"

definition all_fault :: "string \<Rightarrow> error option" where
  "all_fault k = Some (Error ''storage unavailable'')"

definition env_store_down :: "(string \<times> string, string \<times> string) environment" where
  "env_store_down =
     \<lparr>authService_signIn = gateway_accepts_u1,
      authService_register = gateway_accepts_u1,
      authService_signOut = Inr (),
      authService_getStoredUser = Inl (Error ''storage unavailable''),
      authService_loadRegisteredUsers = Inr (),
      JSON_stringify = stringify_fields,
      setItem_fault = all_fault,
      removeItem_fault = all_fault\<rparr>"

text \<open>
  A run of the application on an empty storage: nothing to restore, a sign-in, a profile
  edit, a sign-out.
\<close>

definition sample_operations ::
  "((string \<times> string, string \<times> string) environment
    \<times> (string \<times> string, string \<times> string) operation) list" where
  "sample_operations =
     [(env_empty_store, Op_loadStoredUser),
      (env_accepting, Op_signIn (''u1'', ''p'')),
      (env_accepting, Op_updateUser (patient_u1\<lparr>name := ''Ana Lima''\<rparr>)),
      (env_accepting, Op_signOut)]"

section \<open>Auxiliary facts\<close>

lemma storage_keys_distinct: "STORAGE_KEYS_USER \<noteq> STORAGE_KEYS_TOKEN"
  by (simp add: STORAGE_KEYS_USER_def STORAGE_KEYS_TOKEN_def)

lemmas flow_defs =
  await_then_def try_catch_def try_finally_def service_call_def setUser_def setLoading_def
  console_error_def AsyncStorage_setItem_def AsyncStorage_removeItem_def

lemmas fixture_defs =
  env_rejecting_def env_accepting_def env_empty_store_def env_token_fault_def
  env_store_down_def gateway_rejects_def gateway_accepts_u1_def no_fault_def
  token_write_fault_def all_fault_def initial_session_def fresh_session_def session_u1_def
  session_u2_def
  patient_u1_def admin_u2_def doctor_u2_def nurse_u3_def stringify_fields_def

section \<open>Restoring the stored user\<close>

text \<open>
  Claim C6. \<open>loadStoredUser\<close> always returns normally and always ends with
  \<open>loading = False\<close>. When the service hands back a stored user, that user becomes the
  user in memory. When it hands back nothing, or throws (an unreadable entry, a storage
  that is down), the user in memory is left as it was, and the error, if any, is only
  written to the console; run on the state the provider mounts with, where no user is
  set, the user stays absent.
\<close>

theorem loadStoredUser_finishes_loading:
  "fst (loadStoredUser env s) = Inr ()
   \<and> loading (snd (loadStoredUser env s)) = False
   \<and> (authService_getStoredUser env = Inr (Some u) \<longrightarrow>
        snd (loadStoredUser env s) = s\<lparr>user := Some u, loading := False\<rparr>)
   \<and> (authService_getStoredUser env = Inr None \<longrightarrow>
        snd (loadStoredUser env s) = s\<lparr>loading := False\<rparr>)
   \<and> (authService_getStoredUser env = Inl e \<longrightarrow>
        snd (loadStoredUser env s)
          = s\<lparr>loading := False,
              console := console s @ [(''Erro ao carregar usuario:'', e)]\<rparr>)
   \<and> (authService_getStoredUser env = Inr None \<or> authService_getStoredUser env = Inl e \<longrightarrow>
        user (snd (loadStoredUser env (initial_session store))) = None)"
  by (auto simp add: loadStoredUser_def flow_defs initial_session_def
        split: sum.splits option.splits)

theorem loadStoredUser_finishes_loading_witness:
  "authService_getStoredUser env_accepting = Inr (Some patient_u1)
   \<and> snd (loadStoredUser env_accepting fresh_session)
       = fresh_session\<lparr>user := Some patient_u1, loading := False\<rparr>
   \<and> authService_getStoredUser env_empty_store = Inr None
   \<and> snd (loadStoredUser env_empty_store fresh_session)
       = fresh_session\<lparr>loading := False\<rparr>
   \<and> authService_getStoredUser env_rejecting = Inl (Error ''storage unavailable'')
   \<and> fst (loadStoredUser env_rejecting fresh_session) = Inr ()
   \<and> user (snd (loadStoredUser env_rejecting fresh_session)) = None
   \<and> loading (snd (loadStoredUser env_rejecting fresh_session)) = False"
  using loadStoredUser_finishes_loading
          [of env_accepting fresh_session patient_u1]
        loadStoredUser_finishes_loading
          [of env_empty_store fresh_session]
        loadStoredUser_finishes_loading
          [of env_rejecting fresh_session _ "Error ''storage unavailable''" Map.empty]
  by (simp add: env_accepting_def env_empty_store_def env_rejecting_def initial_session_def
        fresh_session_def)

section \<open>Sign-in and registration\<close>

text \<open>
  Claim C5. When the authentication service rejects the credentials with an error,
  \<open>signIn\<close> rejects with that same error value, and the state after the call (the user in
  memory, the storage, the loading flag and the console) is the state before it.
\<close>

theorem signIn_failure_propagates:
  "authService_signIn env credentials = Inl e \<Longrightarrow> signIn env credentials s = (Inl e, s)"
  by (simp add: signIn_def try_catch_def await_then_def service_call_def)

theorem signIn_failure_propagates_witness:
  "authService_signIn env_rejecting (''u1'', ''p'') = Inl (Error ''invalid credentials'')
   \<and> signIn env_rejecting (''u1'', ''p'') session_u1
       = (Inl (Error ''invalid credentials''), session_u1)"
proof -
  have h: "authService_signIn env_rejecting (''u1'', ''p'') = Inl (Error ''invalid credentials'')"
    by (simp add: env_rejecting_def gateway_rejects_def)
  show ?thesis
    using h signIn_failure_propagates [OF h, of session_u1] by simp
qed

text \<open>
  Claim C9. \<open>register\<close> makes the transition \<open>signIn\<close> makes: whenever the service answers
  the registration as it answers the sign-in, both calls give the same result and the same
  state. When the service rejects, \<open>register\<close> rejects with that error and the state is as
  before; when it accepts and both writes go through, the returned user is the user in
  memory, its serialisation is stored under the user key and the token under the token key.
\<close>

theorem register_same_transition_as_signIn:
  "(authService_register env d = authService_signIn env c \<longrightarrow>
      register env d s = signIn env c s)
   \<and> (authService_register env d = Inl e \<longrightarrow> register env d s = (Inl e, s))
   \<and> (authService_register env d = Inr r \<and> setItem_fault env STORAGE_KEYS_USER = None
        \<and> setItem_fault env STORAGE_KEYS_TOKEN = None \<longrightarrow>
      register env d s
        = (Inr (), s\<lparr>user := Some (response_user r),
                     AsyncStorage := (AsyncStorage s)
                       (STORAGE_KEYS_USER \<mapsto> JSON_stringify env (response_user r),
                        STORAGE_KEYS_TOKEN \<mapsto> response_token r)\<rparr>))"
  by (simp add: register_def signIn_def flow_defs)

theorem register_same_transition_as_signIn_witness:
  "authService_register env_accepting (''u1'', ''p'') = authService_signIn env_accepting (''u1'', ''p'')
   \<and> register env_accepting (''u1'', ''p'') fresh_session
       = signIn env_accepting (''u1'', ''p'') fresh_session
   \<and> authService_register env_rejecting (''u1'', ''p'') = Inl (Error ''invalid credentials'')
   \<and> register env_rejecting (''u1'', ''p'') session_u2
       = (Inl (Error ''invalid credentials''), session_u2)
   \<and> authService_register env_accepting (''u1'', ''p'')
       = Inr \<lparr>response_user = patient_u1, response_token = ''t1''\<rparr>
   \<and> register env_accepting (''u1'', ''p'') fresh_session
       = (Inr (), session_u1\<lparr>loading := True\<rparr>)"
proof -
  have same: "authService_register env_accepting (''u1'', ''p'')
                = authService_signIn env_accepting (''u1'', ''p'')"
    by (simp add: env_accepting_def gateway_accepts_u1_def)
  have rejected: "authService_register env_rejecting (''u1'', ''p'')
                    = Inl (Error ''invalid credentials'')"
    by (simp add: env_rejecting_def gateway_rejects_def)
  have accepted: "authService_register env_accepting (''u1'', ''p'')
                    = Inr \<lparr>response_user = patient_u1, response_token = ''t1''\<rparr>"
    by (simp add: env_accepting_def gateway_accepts_u1_def)
  have writes: "setItem_fault env_accepting STORAGE_KEYS_USER = None
                \<and> setItem_fault env_accepting STORAGE_KEYS_TOKEN = None"
    by (simp add: env_accepting_def no_fault_def)
  note on_accept = register_same_transition_as_signIn
    [of env_accepting "(''u1'', ''p'')" "(''u1'', ''p'')" fresh_session
        "Error ''invalid credentials''"
        "\<lparr>response_user = patient_u1, response_token = ''t1''\<rparr>"]
  note on_reject = register_same_transition_as_signIn
    [of env_rejecting "(''u1'', ''p'')" "(''u1'', ''p'')" session_u2
        "Error ''invalid credentials''"
        "\<lparr>response_user = patient_u1, response_token = ''t1''\<rparr>"]
  from same on_accept
  have r1: "register env_accepting (''u1'', ''p'') fresh_session
              = signIn env_accepting (''u1'', ''p'') fresh_session"
    by blast
  from rejected on_reject
  have r2: "register env_rejecting (''u1'', ''p'') session_u2
              = (Inl (Error ''invalid credentials''), session_u2)"
    by blast
  from accepted writes on_accept
  have "register env_accepting (''u1'', ''p'') fresh_session
          = (Inr (), fresh_session
               \<lparr>user := Some (response_user \<lparr>response_user = patient_u1, response_token = ''t1''\<rparr>),
                AsyncStorage := (AsyncStorage fresh_session)
                  (STORAGE_KEYS_USER \<mapsto> JSON_stringify env_accepting
                     (response_user \<lparr>response_user = patient_u1, response_token = ''t1''\<rparr>),
                   STORAGE_KEYS_TOKEN \<mapsto>
                     response_token \<lparr>response_user = patient_u1, response_token = ''t1''\<rparr>)\<rparr>)"
    by blast
  then have r3: "register env_accepting (''u1'', ''p'') fresh_session
          = (Inr (), session_u1\<lparr>loading := True\<rparr>)"
    by (simp add: env_accepting_def initial_session_def fresh_session_def session_u1_def)
  from same rejected accepted r1 r2 r3 show ?thesis
    by blast
qed

section \<open>Sign-out\<close>

text \<open>
  Claim C2, as the code has it. \<open>signOut\<close> never rejects. The user in memory is cleared
  and the two entries are removed only after the service's sign-out call has succeeded:
  when that call fails, the error is written to the console and the user in memory and
  the storage stay as they were.
\<close>

theorem signOut_unconditional_counterexample:
  "authService_signOut env_rejecting = Inl (Error ''network down'')
   \<and> user (snd (signOut env_rejecting session_u1)) = Some patient_u1
   \<and> AsyncStorage (snd (signOut env_rejecting session_u1)) STORAGE_KEYS_USER \<noteq> None
   \<and> AsyncStorage (snd (signOut env_rejecting session_u1)) STORAGE_KEYS_TOKEN \<noteq> None"
  by (simp add: signOut_def flow_defs env_rejecting_def session_u1_def no_fault_def)

text \<open>
  Claim C2, amended. \<open>signOut\<close> never rejects. When the service's sign-out call
  succeeds, the user in memory is cleared, and when both removals go through as well, the
  two entries are gone from the storage. When the service's call fails, nothing but the
  console changes.
\<close>

theorem signOut_never_throws:
  "fst (signOut env s) = Inr ()
   \<and> (authService_signOut env = Inl e \<longrightarrow>
        snd (signOut env s) = s\<lparr>console := console s @ [(''Erro ao fazer logout:'', e)]\<rparr>)
   \<and> (authService_signOut env = Inr () \<longrightarrow> user (snd (signOut env s)) = None)
   \<and> (authService_signOut env = Inr () \<and> removeItem_fault env STORAGE_KEYS_USER = None
        \<and> removeItem_fault env STORAGE_KEYS_TOKEN = None \<longrightarrow>
        snd (signOut env s)
          = s\<lparr>user := None,
              AsyncStorage := (AsyncStorage s)(STORAGE_KEYS_USER := None, STORAGE_KEYS_TOKEN := None)\<rparr>)"
  by (auto simp add: signOut_def flow_defs split: sum.splits option.splits)

theorem signOut_never_throws_witness:
  "authService_signOut env_rejecting = Inl (Error ''network down'')
   \<and> fst (signOut env_rejecting session_u1) = Inr ()
   \<and> snd (signOut env_rejecting session_u1)
       = session_u1\<lparr>console := [(''Erro ao fazer logout:'', Error ''network down'')]\<rparr>
   \<and> authService_signOut env_accepting = Inr ()
   \<and> fst (signOut env_accepting session_u1) = Inr ()
   \<and> snd (signOut env_accepting session_u1) = fresh_session\<lparr>loading := False\<rparr>"
  using signOut_never_throws [of env_rejecting session_u1 "Error ''network down''"]
        signOut_never_throws [of env_accepting session_u1]
  by (simp add: env_rejecting_def env_accepting_def no_fault_def session_u1_def
        fresh_session_def initial_session_def)

section \<open>Updating the user\<close>

text \<open>
  Claim C3, as the code has it. \<open>updateUser\<close> compares neither the role nor the id of
  its argument with the user signed in: called on an administrator's session with the same
  user as a doctor, it returns normally, the user in memory is the doctor and the stored
  user entry has changed.
\<close>

theorem updateUser_role_change_counterexample:
  "role doctor_u2 \<noteq> role admin_u2
   \<and> user session_u2 = Some admin_u2
   \<and> fst (updateUser env_accepting doctor_u2 session_u2) = Inr ()
   \<and> user (snd (updateUser env_accepting doctor_u2 session_u2)) = Some doctor_u2
   \<and> AsyncStorage (snd (updateUser env_accepting doctor_u2 session_u2)) STORAGE_KEYS_USER
       \<noteq> AsyncStorage session_u2 STORAGE_KEYS_USER"
  by (simp add: updateUser_def flow_defs env_accepting_def session_u2_def no_fault_def
        admin_u2_def doctor_u2_def stringify_fields_def)

text \<open>
  Claim C3, amended. For every state and every argument, whatever its role and id,
  \<open>updateUser\<close> makes the argument the user in memory. When the write goes through it
  stores the argument's serialisation under the user key and returns normally; when the
  write fails it logs the storage's error and rejects with it, the user in memory already
  replaced. No other failure exists.
\<close>

theorem updateUser_replaces_user:
  "(setItem_fault env STORAGE_KEYS_USER = None \<longrightarrow>
      updateUser env updatedUser s
        = (Inr (), s\<lparr>user := Some updatedUser,
                     AsyncStorage := (AsyncStorage s)(STORAGE_KEYS_USER \<mapsto>
                                        JSON_stringify env updatedUser)\<rparr>))
   \<and> (setItem_fault env STORAGE_KEYS_USER = Some e \<longrightarrow>
      updateUser env updatedUser s
        = (Inl e, s\<lparr>user := Some updatedUser,
                    console := console s @ [(''Erro ao atualizar usuario:'', e)]\<rparr>))"
  by (simp add: updateUser_def flow_defs)

theorem updateUser_replaces_user_witness:
  "setItem_fault env_accepting STORAGE_KEYS_USER = None
   \<and> updateUser env_accepting doctor_u2 session_u2
       = (Inr (), session_u2\<lparr>user := Some doctor_u2,
            AsyncStorage := (AsyncStorage session_u2)(STORAGE_KEYS_USER \<mapsto> ''u2,Rui,doctor,'')\<rparr>)
   \<and> setItem_fault env_store_down STORAGE_KEYS_USER = Some (Error ''storage unavailable'')
   \<and> updateUser env_store_down doctor_u2 session_u2
       = (Inl (Error ''storage unavailable''),
          session_u2\<lparr>user := Some doctor_u2,
            console := [(''Erro ao atualizar usuario:'', Error ''storage unavailable'')]\<rparr>)"
  using updateUser_replaces_user [of env_accepting doctor_u2 session_u2]
        updateUser_replaces_user
          [of env_store_down doctor_u2 session_u2 "Error ''storage unavailable''"]
  by (simp add: env_accepting_def env_store_down_def no_fault_def all_fault_def
        doctor_u2_def stringify_fields_def session_u2_def)

section \<open>Pairing of the two stored entries\<close>

lemma loadStoredUser_keeps_pairing:
  assumes "paired s" "session_backed s" "step_allowed (env, Op_loadStoredUser) s"
  shows "paired (snd (loadStoredUser env s)) \<and> session_backed (snd (loadStoredUser env s))"
  using assms
  by (auto simp add: loadStoredUser_def flow_defs paired_def session_backed_def
        split: sum.splits option.splits)

lemma signIn_keeps_pairing:
  assumes "paired s" "session_backed s" "storage_reliable env"
  shows "paired (snd (signIn env c s)) \<and> session_backed (snd (signIn env c s))"
  using assms
  by (auto simp add: signIn_def flow_defs paired_def session_backed_def storage_reliable_def
        split: sum.splits option.splits)

lemma register_keeps_pairing:
  assumes "paired s" "session_backed s" "storage_reliable env"
  shows "paired (snd (register env d s)) \<and> session_backed (snd (register env d s))"
  using assms
  by (auto simp add: register_def flow_defs paired_def session_backed_def storage_reliable_def
        split: sum.splits option.splits)

lemma signOut_keeps_pairing:
  assumes "paired s" "session_backed s" "storage_reliable env"
  shows "paired (snd (signOut env s)) \<and> session_backed (snd (signOut env s))"
  using assms
  by (auto simp add: signOut_def flow_defs paired_def session_backed_def storage_reliable_def
        split: sum.splits option.splits)

lemma updateUser_keeps_pairing:
  assumes "paired s" "session_backed s" "storage_reliable env" "user s \<noteq> None"
  shows "paired (snd (updateUser env u s)) \<and> session_backed (snd (updateUser env u s))"
  using assms storage_keys_distinct
  by (auto simp add: updateUser_def flow_defs paired_def session_backed_def storage_reliable_def
        split: sum.splits option.splits)

lemma perform_keeps_pairing:
  assumes "paired s" "session_backed s" "step_allowed x s"
  shows "paired (snd (perform x s)) \<and> session_backed (snd (perform x s))"
proof (cases x)
  case (Pair env op)
  show ?thesis
  proof (cases op)
    case Op_loadStoredUser
    with Pair assms loadStoredUser_keeps_pairing [of s env] show ?thesis by simp
  next
    case (Op_signIn c)
    with Pair assms signIn_keeps_pairing [of s env c] show ?thesis by simp
  next
    case (Op_register d)
    with Pair assms register_keeps_pairing [of s env d] show ?thesis by simp
  next
    case Op_signOut
    with Pair assms signOut_keeps_pairing [of s env] show ?thesis by simp
  next
    case (Op_updateUser u)
    with Pair assms updateUser_keeps_pairing [of s env u] show ?thesis by simp
  qed
qed

text \<open>
  Claim C4, as the code has it. The two entries are written by two separate calls, and
  a failure of the second leaves the first in place: a sign-in on an empty storage whose
  token write is rejected ends with the user entry stored and no token entry.
\<close>

theorem entries_paired_counterexample:
  "AsyncStorage (snd (signIn env_token_fault (''u1'', ''p'') fresh_session))
     STORAGE_KEYS_USER = Some ''u1,Ana,patient,''
   \<and> AsyncStorage (snd (signIn env_token_fault (''u1'', ''p'') fresh_session))
       STORAGE_KEYS_TOKEN = None
   \<and> \<not> list_all paired (trace [(env_token_fault, Op_signIn (''u1'', ''p''))]
                            fresh_session)"
  by (simp add: signIn_def flow_defs paired_def fixture_defs
        STORAGE_KEYS_USER_def STORAGE_KEYS_TOKEN_def)

text \<open>
  Claim C4, amended. Start from a state in which the two entries are both present or
  both absent and a user in memory implies a stored user entry. Along every sequence of
  operations in which no write or removal of the two entries fails, \<open>updateUser\<close> is
  called only while a user is signed in, and the service hands back a stored user only
  when the user entry is stored, the user entry is present exactly when the token entry
  is, before the first operation and after each completed one.
\<close>

theorem entries_paired_when_storage_reliable:
  "paired s \<Longrightarrow> session_backed s \<Longrightarrow> admissible ops s \<Longrightarrow> list_all paired (trace ops s)"
proof (induction ops arbitrary: s)
  case Nil
  then show ?case by simp
next
  case (Cons x xs)
  from Cons.prems have allowed: "step_allowed x s"
    and rest: "admissible xs (snd (perform x s))"
    by simp_all
  from perform_keeps_pairing [OF Cons.prems(1) Cons.prems(2) allowed]
  have "paired (snd (perform x s))" and "session_backed (snd (perform x s))"
    by simp_all
  from Cons.IH [OF this rest] Cons.prems(1) show ?case
    by simp
qed

theorem entries_paired_when_storage_reliable_witness:
  "paired fresh_session
   \<and> session_backed fresh_session
   \<and> admissible sample_operations fresh_session
   \<and> list_all paired (trace sample_operations fresh_session)"
proof -
  have p: "paired fresh_session"
    by (simp add: paired_def initial_session_def fresh_session_def)
  have b: "session_backed fresh_session"
    by (simp add: session_backed_def initial_session_def fresh_session_def)
  have a: "admissible sample_operations fresh_session"
    by (simp add: sample_operations_def storage_reliable_def loadStoredUser_def signIn_def
          updateUser_def signOut_def flow_defs fixture_defs)
  from p b a entries_paired_when_storage_reliable [OF p b a] show ?thesis
    by blast
qed

section \<open>The navigator\<close>

text \<open>
  Claim C8. While \<open>loading\<close> is true the navigator returns \<^verbatim>\<open>null\<close>, whatever the user
  is: no screen is registered, there is no initial route, and the result is neither the
  public nor the protected stack.
\<close>

theorem loading_renders_nothing:
  "AppNavigator usr True = Null
   \<and> reachable (AppNavigator usr True) = {}
   \<and> initialRoute (AppNavigator usr True) = None
   \<and> AppNavigator usr True \<noteq> NavigationContainer screens"
  by (simp add: AppNavigator_def)

text \<open>
  Claim C7. Once loading has finished, a signed-in user whose role is one of
  \<^verbatim>\<open>admin\<close>, \<^verbatim>\<open>doctor\<close>, \<^verbatim>\<open>patient\<close> reaches the dashboard of that role together with the
  common screens, the dashboard is the initial route, and the dashboards of the other two
  roles are not registered.
\<close>

theorem role_dashboard_and_common_set:
  "(role u = ''admin'' \<longrightarrow>
      reachable (AppNavigator (Some u) False) = insert AdminDashboard CommonSet
      \<and> initialRoute (AppNavigator (Some u) False) = Some AdminDashboard
      \<and> DoctorDashboard \<notin> reachable (AppNavigator (Some u) False)
      \<and> PatientDashboard \<notin> reachable (AppNavigator (Some u) False))
   \<and> (role u = ''doctor'' \<longrightarrow>
      reachable (AppNavigator (Some u) False) = insert DoctorDashboard CommonSet
      \<and> initialRoute (AppNavigator (Some u) False) = Some DoctorDashboard
      \<and> AdminDashboard \<notin> reachable (AppNavigator (Some u) False)
      \<and> PatientDashboard \<notin> reachable (AppNavigator (Some u) False))
   \<and> (role u = ''patient'' \<longrightarrow>
      reachable (AppNavigator (Some u) False) = insert PatientDashboard CommonSet
      \<and> initialRoute (AppNavigator (Some u) False) = Some PatientDashboard
      \<and> AdminDashboard \<notin> reachable (AppNavigator (Some u) False)
      \<and> DoctorDashboard \<notin> reachable (AppNavigator (Some u) False))"
  by (simp add: AppNavigator_def CommonSet_def)

theorem role_dashboard_and_common_set_witness:
  "role patient_u1 = ''patient''
   \<and> reachable (AppNavigator (Some patient_u1) False) = insert PatientDashboard CommonSet
   \<and> initialRoute (AppNavigator (Some patient_u1) False) = Some PatientDashboard
   \<and> AdminDashboard \<notin> reachable (AppNavigator (Some patient_u1) False)
   \<and> role admin_u2 = ''admin''
   \<and> initialRoute (AppNavigator (Some admin_u2) False) = Some AdminDashboard
   \<and> role doctor_u2 = ''doctor''
   \<and> initialRoute (AppNavigator (Some doctor_u2) False) = Some DoctorDashboard"
proof -
  have p: "role patient_u1 = ''patient''" by (simp add: patient_u1_def)
  have a: "role admin_u2 = ''admin''" by (simp add: admin_u2_def)
  have d: "role doctor_u2 = ''doctor''" by (simp add: doctor_u2_def)
  from p a d role_dashboard_and_common_set [of patient_u1]
    role_dashboard_and_common_set [of admin_u2] role_dashboard_and_common_set [of doctor_u2]
  show ?thesis
    by blast
qed

text \<open>
  Claim C1, as the code has it. A signed-in user whose role is none of the three is
  given the common screens: for the role \<^verbatim>\<open>nurse\<close> the screens registered are not the
  sign-in pair, and \<open>Home\<close> is among them.
\<close>

theorem unknown_role_reaches_login_counterexample:
  "reachable (AppNavigator (Some nurse_u3) False) \<noteq> {Login, Register}
   \<and> Home \<in> reachable (AppNavigator (Some nurse_u3) False)"
proof -
  have inside: "Home \<in> reachable (AppNavigator (Some nurse_u3) False)"
    by (simp add: AppNavigator_def nurse_u3_def)
  have outside: "Home \<notin> {Login, Register}"
    by simp
  from inside outside show ?thesis
    by metis
qed

text \<open>
  Claim C1, amended. Once loading has finished, a signed-in user whose role is none of
  \<^verbatim>\<open>admin\<close>, \<^verbatim>\<open>doctor\<close>, \<^verbatim>\<open>patient\<close> reaches exactly the common screens: no dashboard,
  neither of the two sign-in screens, and \<open>Home\<close> as the initial route.
\<close>

theorem unknown_role_reaches_common_set:
  "role u \<notin> {''admin'', ''doctor'', ''patient''} \<Longrightarrow>
     AppNavigator (Some u) False
       = NavigationContainer [Home, CreateAppointment, Profile, EditProfile, Notifications, Settings]
     \<and> reachable (AppNavigator (Some u) False) = CommonSet
     \<and> initialRoute (AppNavigator (Some u) False) = Some Home"
  by (simp add: AppNavigator_def CommonSet_def)

theorem unknown_role_reaches_common_set_witness:
  "role nurse_u3 \<notin> {''admin'', ''doctor'', ''patient''}
   \<and> reachable (AppNavigator (Some nurse_u3) False) = CommonSet
   \<and> initialRoute (AppNavigator (Some nurse_u3) False) = Some Home"
proof -
  have h: "role nurse_u3 \<notin> {''admin'', ''doctor'', ''patient''}"
    by (simp add: nurse_u3_def)
  show ?thesis
    using h unknown_role_reaches_common_set [OF h] by blast
qed

section \<open>The hook\<close>

text \<open>
  Claim C10. \<open>useAuth\<close> never throws: the value it reads is the provider's object or the
  default \<^verbatim>\<open>{}\<close>, both truthy, so the guard's branch is never taken; outside a provider it
  returns the empty default.
\<close>

theorem useAuth_never_throws:
  "useAuth provider \<noteq> Inl e
   \<and> (\<exists>context. useAuth provider = Inr context \<and> truthy context)
   \<and> useAuth None = Inr (JS_object Empty_Object)"
  by (cases provider)
     (simp_all add: useAuth_def useContext_AuthContext_def AuthContext_default_def
        AuthProvider_value_def)

end
